theory Spec2Isabelle
  imports Main
begin

section \<open>JavaScript string operations used by extension.ts\<close>

text \<open>
  A JavaScript string is modelled as a \<^typ>\<open>string\<close>, one \<^typ>\<open>char\<close> per code unit; the
  model therefore covers the strings whose code units lie below 256. The operations below
  are the library methods that \<^verbatim>\<open>extension.ts\<close> calls on strings: \<^verbatim>\<open>startsWith\<close>,
  \<^verbatim>\<open>trim\<close>, \<^verbatim>\<open>replace\<close> with a string pattern, and the conversion of a number to a
  string inside a template literal.
\<close>

definition startsWith :: "string \<Rightarrow> string \<Rightarrow> bool" where
  "startsWith s p = (take (length p) s = p)"

text \<open>
  \<^verbatim>\<open>trim\<close> removes white space and line terminators from both ends. Below 256 these are
  TAB, LF, VT, FF, CR, SPACE and NBSP.
\<close>

definition isWhiteSpace :: "char \<Rightarrow> bool" where
  "isWhiteSpace c = (c \<in> set [CHR 0x09, CHR 0x0A, CHR 0x0B, CHR 0x0C, CHR 0x0D, CHR 0x20, CHR 0xA0])"

definition trimStart :: "string \<Rightarrow> string" where
  "trimStart s = dropWhile isWhiteSpace s"

definition trimEnd :: "string \<Rightarrow> string" where
  "trimEnd s = rev (dropWhile isWhiteSpace (rev s))"

definition trim :: "string \<Rightarrow> string" where
  "trim s = trimEnd (trimStart s)"

text \<open>\<^verbatim>\<open>indexOf\<close>: the position of the first occurrence of the pattern, if there is one.\<close>

fun indexOf :: "string \<Rightarrow> string \<Rightarrow> nat option" where
  "indexOf [] p = (if p = [] then Some 0 else None)"
| "indexOf (c # cs) p =
     (if startsWith (c # cs) p then Some 0 else map_option Suc (indexOf cs p))"

text \<open>
  The replacement text of \<^verbatim>\<open>replace\<close> is not taken literally: ECMAScript's GetSubstitution
  expands \<^verbatim>\<open>$$\<close> to a dollar sign, \<^verbatim>\<open>$&\<close> to the matched text, \<^verbatim>\<open>$`\<close> to the text
  before the match and \<^verbatim>\<open>$'\<close> to the text after it. With a string pattern there are no
  capture groups, so every other use of \<^verbatim>\<open>$\<close> stands for itself.
\<close>

fun getSubstitution :: "string \<Rightarrow> string \<Rightarrow> string \<Rightarrow> string \<Rightarrow> string" where
  "getSubstitution matched pre post [] = []"
| "getSubstitution matched pre post [c] = [c]"
| "getSubstitution matched pre post (c # d # r) =
     (if c = CHR ''$'' then
        (if d = CHR ''$'' then CHR ''$'' # getSubstitution matched pre post r
         else if d = CHR ''&'' then matched @ getSubstitution matched pre post r
         else if d = CHR 0x60 then pre @ getSubstitution matched pre post r
         else if d = CHR 0x27 then post @ getSubstitution matched pre post r
         else c # getSubstitution matched pre post (d # r))
      else c # getSubstitution matched pre post (d # r))"

text \<open>\<^verbatim>\<open>s.replace(p, r)\<close> with a string pattern replaces the first occurrence only.\<close>

definition replace :: "string \<Rightarrow> string \<Rightarrow> string \<Rightarrow> string" where
  "replace s p r =
     (case indexOf s p of
        None \<Rightarrow> s
      | Some i \<Rightarrow>
          take i s
          @ getSubstitution p (take i s) (drop (i + length p) s) r
          @ drop (i + length p) s)"

text \<open>Decimal rendering of an integer, as a template literal renders a number.\<close>

definition digit :: "nat \<Rightarrow> char" where
  "digit d = ''0123456789'' ! d"

fun decimal :: "nat \<Rightarrow> string" where
  "decimal n = (if n < 10 then [digit n] else decimal (n div 10) @ [digit (n mod 10)])"

declare decimal.simps [simp del]

definition numberToString :: "int \<Rightarrow> string" where
  "numberToString i = (if i < 0 then CHR ''-'' # decimal (nat (- i)) else decimal (nat i))"

section \<open>The editor and the operating system, as the extension sees them\<close>

text \<open>
  The extension reaches the operating system through Node's \<^verbatim>\<open>path\<close> and \<^verbatim>\<open>os\<close> modules
  and through \<^verbatim>\<open>context.extensionPath\<close>. Their results depend on the platform, so they are
  parameters of the model.
\<close>

record env =
  extensionPath :: string
  homedir :: string
  cwd :: string
  path_join :: "string list \<Rightarrow> string"
  path_dirname :: "string \<Rightarrow> string"
  path_resolve :: "string \<Rightarrow> string"

text \<open>
  \<^verbatim>\<open>package.json\<close> contributes six settings (lines 58 to 92), five of type string and one
  of type boolean, each with its default.
\<close>

datatype cfg_value = CStr string | CBool bool

definition configuration_properties :: "(string \<times> cfg_value) list" where
  "configuration_properties =
     [(''pdfProcessor.outputPath'', CStr ''~/Downolads/PDF_Output''),
      (''pdfProcessor.bibtexPath'', CStr ''~/Downolads/bibtexPath.bib''),
      (''pdfProcessor.templatePath'', CStr ''~/Downolads/template.md''),
      (''pdfProcessor.validateWritePermission'', CBool True),
      (''pdfProcessor.openaiApiKey'', CStr []),
      (''pdfProcessor.pythonPath'', CStr ''python'')]"

text \<open>The commands that \<^verbatim>\<open>activate\<close> registers, named after the variables that hold them.\<close>

datatype command = ProcessFile | ProcessFolder | SelectTemplate | SelectOutput | SelectBibtex

datatype notification = InformationMessage string | ErrorMessage string

record spawn_call =
  spawn_command :: string
  spawn_args :: "string list"
  spawn_cwd :: "string option"

text \<open>
  What the extension can change: the user's values of the string settings (the one boolean
  setting is neither read nor written by \<^verbatim>\<open>extension.ts\<close>), the notifications shown, the
  lines written with \<^verbatim>\<open>console.log\<close> (one list of arguments per call), the processes
  spawned and the commands registered.
\<close>

record state =
  settings :: "string \<rightharpoonup> string"
  notifications :: "notification list"
  console :: "string list list"
  spawned :: "spawn_call list"
  commands :: "(string \<times> command) list"

text \<open>
  \<^verbatim>\<open>vscode.workspace.getConfiguration('pdfProcessor').get<string>(key)\<close>: the user's value
  of the setting, else the contributed default when that is a string, else \<^verbatim>\<open>undefined\<close>.
\<close>

definition config_get :: "state \<Rightarrow> string \<Rightarrow> string option" where
  "config_get st key =
     (case settings st (''pdfProcessor.'' @ key) of
        Some s \<Rightarrow> Some s
      | None \<Rightarrow>
          (case map_of configuration_properties (''pdfProcessor.'' @ key) of
             Some (CStr s) \<Rightarrow> Some s
           | _ \<Rightarrow> None))"

text \<open>\<^verbatim>\<open>config.update(key, value, vscode.ConfigurationTarget.Global)\<close>.\<close>

definition config_update :: "string \<Rightarrow> string \<Rightarrow> state \<Rightarrow> state" where
  "config_update key v st = st\<lparr>settings := (settings st)(''pdfProcessor.'' @ key \<mapsto> v)\<rparr>"

text \<open>\<^verbatim>\<open>a || b\<close> on an optional string: \<^verbatim>\<open>undefined\<close> and the empty string are falsy.\<close>

definition or_else :: "string option \<Rightarrow> string \<Rightarrow> string" where
  "or_else a b = (case a of None \<Rightarrow> b | Some s \<Rightarrow> if s = [] then b else s)"

text \<open>
  A setting counts as configured when reading it gives a truthy value: a string that is
  not empty.
\<close>

definition configured :: "string option \<Rightarrow> bool" where
  "configured v = (case v of None \<Rightarrow> False | Some s \<Rightarrow> s \<noteq> [])"

definition showInformationMessage :: "string \<Rightarrow> state \<Rightarrow> state" where
  "showInformationMessage m st = st\<lparr>notifications := notifications st @ [InformationMessage m]\<rparr>"

definition showErrorMessage :: "string \<Rightarrow> state \<Rightarrow> state" where
  "showErrorMessage m st = st\<lparr>notifications := notifications st @ [ErrorMessage m]\<rparr>"

definition console_log :: "string list \<Rightarrow> state \<Rightarrow> state" where
  "console_log xs st = st\<lparr>console := console st @ [xs]\<rparr>"

definition spawn :: "string \<Rightarrow> string list \<Rightarrow> string option \<Rightarrow> state \<Rightarrow> state" where
  "spawn c as d st =
     st\<lparr>spawned := spawned st @ [\<lparr>spawn_command = c, spawn_args = as, spawn_cwd = d\<rparr>]\<rparr>"

section \<open>processPDF\<close>

text \<open>
  What a spawned process does is an input: the events it emits, in order. The promise
  that \<^verbatim>\<open>processPDF\<close> returns stays pending until a \<^verbatim>\<open>close\<close> event settles it; a
  rejection carries the message of its \<^verbatim>\<open>Error\<close>. An exit code is a number, or \<^verbatim>\<open>null\<close>
  when a signal ended the process.
\<close>

datatype proc_event = Stdout string | Stderr string | Close "int option"

datatype promise = Pending | Resolved | Rejected string

definition codeToString :: "int option \<Rightarrow> string" where
  "codeToString code = (case code of None \<Rightarrow> ''null'' | Some n \<Rightarrow> numberToString n)"

text \<open>The listener on \<^verbatim>\<open>process.stdout\<close> (lines 159 to 167).\<close>

definition on_stdout_data :: "string \<Rightarrow> state \<Rightarrow> state" where
  "on_stdout_data data st =
     (let message = trim data;
          st1 = console_log [''STDOUT:'', message] st
      in if startsWith message ''INFO:'' then
           showInformationMessage (trim (replace message ''INFO:'' [])) st1
         else if startsWith message ''ERROR:'' then
           showErrorMessage (trim (replace message ''ERROR:'' [])) st1
         else st1)"

text \<open>The listener on \<^verbatim>\<open>process.stderr\<close> (lines 169 to 173).\<close>

definition on_stderr_data :: "string \<Rightarrow> state \<Rightarrow> state" where
  "on_stderr_data data st =
     (let errorMsg = trim data;
          st1 = console_log [''STDERR:'', errorMsg] st
      in showErrorMessage (''Python Error: '' @ errorMsg) st1)"

text \<open>
  The listener on \<^verbatim>\<open>close\<close> (lines 175 to 182). Settling a promise that is already
  settled changes nothing.
\<close>

definition settle :: "promise \<Rightarrow> promise \<Rightarrow> promise" where
  "settle p new = (case p of Pending \<Rightarrow> new | _ \<Rightarrow> p)"

definition on_close :: "int option \<Rightarrow> promise \<times> state \<Rightarrow> promise \<times> state" where
  "on_close code ps =
     (if code = Some 0 then
        (settle (fst ps) Resolved, showInformationMessage ''PDF processed successfully!'' (snd ps))
      else
        (settle (fst ps) (Rejected (''Process failed with code '' @ codeToString code)), snd ps))"

fun handle_event :: "proc_event \<Rightarrow> promise \<times> state \<Rightarrow> promise \<times> state" where
  "handle_event (Stdout data) (p, st) = (p, on_stdout_data data st)"
| "handle_event (Stderr data) (p, st) = (p, on_stderr_data data st)"
| "handle_event (Close code) (p, st) = on_close code (p, st)"

fun run_events :: "proc_event list \<Rightarrow> promise \<times> state \<Rightarrow> promise \<times> state" where
  "run_events [] ps = ps"
| "run_events (e # es) ps = run_events es (handle_event e ps)"

text \<open>Lines 132 to 136: the output path with a leading tilde expanded, then resolved.\<close>

definition resolve_outputPath :: "env \<Rightarrow> string \<Rightarrow> string" where
  "resolve_outputPath env outputPath =
     path_resolve env
       (if startsWith outputPath ''~'' then replace outputPath ''~'' (homedir env)
        else outputPath)"

text \<open>Lines 138 to 145: the argument list, built by \<^verbatim>\<open>push\<close>.\<close>

definition push_option :: "string \<Rightarrow> string option \<Rightarrow> string list \<Rightarrow> string list" where
  "push_option flag v args =
     (case v of None \<Rightarrow> args | Some s \<Rightarrow> if s = [] then args else args @ [flag, s])"

definition build_args :: "string \<Rightarrow> string \<Rightarrow> string \<Rightarrow> string option \<Rightarrow> string option \<Rightarrow> string list" where
  "build_args pythonScript pdfPath outputPath apiKey templatePath =
     push_option ''-t'' templatePath
       (push_option ''-k'' apiKey [pythonScript, pdfPath, ''-o'', outputPath])"

definition processPDF :: "env \<Rightarrow> string \<Rightarrow> string \<Rightarrow> proc_event list \<Rightarrow> state \<Rightarrow> promise \<times> state" where
  "processPDF env pdfPath outputPath events st =
     (let apiKey = config_get st ''openaiApiKey'';
          templatePath = config_get st ''templatePath'';
          pythonScript = path_join env [extensionPath env, ''src'', ''python'', ''pdf_processor.py''];
          outputPath' = resolve_outputPath env outputPath;
          args = build_args pythonScript pdfPath outputPath' apiKey templatePath;
          pythonPath = or_else (config_get st ''pythonPath'') ''python'';
          st1 = console_log [''Using Python:'', pythonPath] st;
          st2 = console_log (''Args:'' # args) st1;
          st3 = console_log [''Working directory:'', cwd env] st2;
          st4 = console_log [''Using Python:'', pythonPath] st3;
          st5 = console_log (''Args:'' # args) st4;
          st6 = spawn pythonPath args (Some (extensionPath env)) st5
      in run_events events (Pending, st6))"

text \<open>Lines 186 to 188: the body is empty.\<close>

definition processPDFFolder :: "env \<Rightarrow> string \<Rightarrow> string \<Rightarrow> state \<Rightarrow> promise \<times> state" where
  "processPDFFolder env folderPath outputPath st = (Resolved, st)"

section \<open>The commands\<close>

text \<open>
  A command is invoked with a target (\<^verbatim>\<open>uri.fsPath\<close>) or without one. The answer of the
  open dialog is an input: \<^verbatim>\<open>undefined\<close> when the user dismisses it, else the paths
  chosen. A handler has returned, or is still waiting for a promise that never settles.
\<close>

datatype completion = Returned | Waiting

text \<open>Lines 18 to 31 and 47 to 59: the target, asked from the user when none was passed.\<close>

definition choose_target :: "string option \<Rightarrow> string list option \<Rightarrow> string option" where
  "choose_target uri dialog =
     (case uri of
        Some u \<Rightarrow> Some u
      | None \<Rightarrow> (case dialog of None \<Rightarrow> None | Some [] \<Rightarrow> None | Some (f # fs) \<Rightarrow> Some f))"

text \<open>\<^verbatim>\<open>await\<close> inside \<^verbatim>\<open>try\<close>: a rejection is caught and shown (lines 38 to 40).\<close>

definition await_or_catch :: "promise \<times> state \<Rightarrow> completion \<times> state" where
  "await_or_catch ps =
     (case fst ps of
        Pending \<Rightarrow> (Waiting, snd ps)
      | Resolved \<Rightarrow> (Returned, snd ps)
      | Rejected m \<Rightarrow> (Returned, showErrorMessage (''Error: '' @ ''Error: '' @ m) (snd ps)))"

text \<open>Lines 33 to 35 and 61 to 62: the output path handed on.\<close>

definition processFile_outputPath :: "env \<Rightarrow> state \<Rightarrow> string \<Rightarrow> string" where
  "processFile_outputPath env st fsPath =
     or_else (config_get st ''outputPath'') (path_dirname env fsPath)"

definition processFolder_outputPath :: "state \<Rightarrow> string \<Rightarrow> string" where
  "processFolder_outputPath st fsPath = or_else (config_get st ''outputPath'') fsPath"

definition processFile ::
  "env \<Rightarrow> string option \<Rightarrow> string list option \<Rightarrow> proc_event list \<Rightarrow> state \<Rightarrow> completion \<times> state" where
  "processFile env uri dialog events st =
     (case choose_target uri dialog of
        None \<Rightarrow> (Returned, st)
      | Some fsPath \<Rightarrow>
          await_or_catch
            (processPDF env fsPath (processFile_outputPath env st fsPath) events st))"

definition processFolder ::
  "env \<Rightarrow> string option \<Rightarrow> string list option \<Rightarrow> state \<Rightarrow> completion \<times> state" where
  "processFolder env uri dialog st =
     (case choose_target uri dialog of
        None \<Rightarrow> (Returned, st)
      | Some fsPath \<Rightarrow>
          await_or_catch
            (processPDFFolder env fsPath (processFolder_outputPath st fsPath) st))"

text \<open>
  Lines 72 to 119: the three selection commands store the first path chosen and announce
  it; \<^verbatim>\<open>fileUri && fileUri[0]\<close> fails for a dismissed dialog and for an empty choice.
\<close>

definition select_path :: "string \<Rightarrow> string \<Rightarrow> string list option \<Rightarrow> state \<Rightarrow> completion \<times> state" where
  "select_path key label dialog st =
     (case dialog of
        Some (f # fs) \<Rightarrow> (Returned, showInformationMessage (label @ f) (config_update key f st))
      | _ \<Rightarrow> (Returned, st))"

definition selectTemplate :: "string list option \<Rightarrow> state \<Rightarrow> completion \<times> state" where
  "selectTemplate = select_path ''templatePath'' ''Template set to: ''"

definition selectOutput :: "string list option \<Rightarrow> state \<Rightarrow> completion \<times> state" where
  "selectOutput = select_path ''outputPath'' ''Output path set to: ''"

definition selectBibtex :: "string list option \<Rightarrow> state \<Rightarrow> completion \<times> state" where
  "selectBibtex = select_path ''bibtexPath'' ''Bibtex path set to: ''"

fun run_command ::
  "env \<Rightarrow> command \<Rightarrow> string option \<Rightarrow> string list option \<Rightarrow> proc_event list \<Rightarrow> state \<Rightarrow> completion \<times> state" where
  "run_command env ProcessFile uri dialog events st = processFile env uri dialog events st"
| "run_command env ProcessFolder uri dialog events st = processFolder env uri dialog st"
| "run_command env SelectTemplate uri dialog events st = selectTemplate dialog st"
| "run_command env SelectOutput uri dialog events st = selectOutput dialog st"
| "run_command env SelectBibtex uri dialog events st = selectBibtex dialog st"

section \<open>Activation\<close>

definition installPythonDeps :: "env \<Rightarrow> state \<Rightarrow> state" where
  "installPythonDeps env st =
     (let reqPath = path_join env [extensionPath env, ''requirements.txt'']
      in spawn ''pip'' [''install'', ''-r'', reqPath] None st)"

definition registerCommand :: "string \<Rightarrow> command \<Rightarrow> state \<Rightarrow> state" where
  "registerCommand name c st = st\<lparr>commands := commands st @ [(name, c)]\<rparr>"

definition activate :: "env \<Rightarrow> state \<Rightarrow> state" where
  "activate env st =
     (let st0 = installPythonDeps env st;
          st1 = registerCommand ''pdfProcessor.processFile'' ProcessFile st0;
          st2 = registerCommand ''pdfProcessor.processFolder'' ProcessFolder st1;
          st3 = registerCommand ''pdfProcessor.selectTemplatePath'' SelectTemplate st2;
          st4 = registerCommand ''pdfProcessor.selectOutputPath'' SelectOutput st3;
          st5 = registerCommand ''pdfProcessor.selectBibtexPath'' SelectBibtex st4
      in st5)"

text \<open>\<^verbatim>\<open>vscode.commands.executeCommand\<close>: the handler registered under the name runs.\<close>

definition executeCommand ::
  "env \<Rightarrow> string \<Rightarrow> string option \<Rightarrow> string list option \<Rightarrow> proc_event list \<Rightarrow> state \<Rightarrow> (completion \<times> state) option" where
  "executeCommand env name uri dialog events st =
     map_option (\<lambda>c. run_command env c uri dialog events st) (map_of (commands st) name)"

section \<open>Node's path module on a POSIX system\<close>

text \<open>
  One instance of the platform parameters, used to run the model on concrete inputs:
  \<^verbatim>\<open>path.posix\<close>. \<^verbatim>\<open>normalizeString\<close> walks the segments between slashes, skips empty
  segments and single dots, and lets a double dot remove the segment before it; above the
  start of a relative path the double dot is kept, above the root it is dropped.
\<close>

fun split_on :: "char \<Rightarrow> string \<Rightarrow> string list" where
  "split_on sep [] = [[]]"
| "split_on sep (c # cs) =
     (if c = sep then [] # split_on sep cs
      else (case split_on sep cs of [] \<Rightarrow> [[c]] | w # ws \<Rightarrow> (c # w) # ws))"

fun join_with :: "char \<Rightarrow> string list \<Rightarrow> string" where
  "join_with sep [] = []"
| "join_with sep [w] = w"
| "join_with sep (w # v # ws) = w @ sep # join_with sep (v # ws)"

fun normalize_segments :: "bool \<Rightarrow> string list \<Rightarrow> string list \<Rightarrow> string list" where
  "normalize_segments allowAboveRoot [] res = rev res"
| "normalize_segments allowAboveRoot (s # ss) res =
     (if s = [] \<or> s = ''.'' then normalize_segments allowAboveRoot ss res
      else if s = ''..'' then
        (case res of
           [] \<Rightarrow> normalize_segments allowAboveRoot ss (if allowAboveRoot then [''..''] else [])
         | t # ts \<Rightarrow>
             if t = ''..'' then
               normalize_segments allowAboveRoot ss (if allowAboveRoot then ''..'' # res else res)
             else normalize_segments allowAboveRoot ss ts)
      else normalize_segments allowAboveRoot ss (s # res))"

definition normalizeString :: "string \<Rightarrow> bool \<Rightarrow> string" where
  "normalizeString path allowAboveRoot =
     join_with CHR ''/'' (normalize_segments allowAboveRoot (split_on CHR ''/'' path) [])"

definition isAbsolute :: "string \<Rightarrow> bool" where
  "isAbsolute path = startsWith path ''/''"

definition posix_resolve :: "string \<Rightarrow> string \<Rightarrow> string" where
  "posix_resolve wd path =
     (let resolved1 = (if path = [] then [] else path @ ''/'');
          absolute1 = isAbsolute path;
          resolved2 = (if absolute1 \<or> wd = [] then resolved1 else wd @ ''/'' @ resolved1);
          absolute2 = (absolute1 \<or> isAbsolute wd);
          normalized = normalizeString resolved2 (\<not> absolute2)
      in if absolute2 then CHR ''/'' # normalized
         else if normalized = [] then ''.'' else normalized)"

definition posix_dirname :: "string \<Rightarrow> string" where
  "posix_dirname path =
     (if path = [] then ''.''
      else
        (let hasRoot = isAbsolute path;
             endIndex = length (dropWhile (\<lambda>c. c \<noteq> CHR ''/'')
                     (dropWhile (\<lambda>c. c = CHR ''/'') (rev (tl path))))
         in if endIndex = 0 then (if hasRoot then ''/'' else ''.'')
            else if hasRoot \<and> endIndex = 1 then ''//''
            else take endIndex path))"

definition posix_normalize :: "string \<Rightarrow> string" where
  "posix_normalize path =
     (if path = [] then ''.''
      else
        (let absolute = isAbsolute path;
             trailingSeparator = (last path = CHR ''/'');
             p = normalizeString path (\<not> absolute)
         in if p = [] then (if absolute then ''/'' else if trailingSeparator then ''./'' else ''.'')
            else (if absolute then ''/'' else []) @ p @ (if trailingSeparator then ''/'' else [])))"

definition posix_join :: "string list \<Rightarrow> string" where
  "posix_join parts =
     (let joined = join_with CHR ''/'' (filter (\<lambda>p. p \<noteq> []) parts)
      in if joined = [] then ''.'' else posix_normalize joined)"

definition posix_env :: "string \<Rightarrow> string \<Rightarrow> string \<Rightarrow> env" where
  "posix_env ext home wd =
     \<lparr>extensionPath = ext, homedir = home, cwd = wd,
      path_join = posix_join, path_dirname = posix_dirname, path_resolve = posix_resolve wd\<rparr>"

text \<open>A fresh editor: nothing set, shown, logged, spawned or registered.\<close>

definition initial_state :: state where
  "initial_state =
     \<lparr>settings = Map.empty, notifications = [], console = [], spawned = [], commands = []\<rparr>"

section \<open>The output protocol as the specification words it\<close>

text \<open>
  Section 6 of the specification has the caller read the output line by line and surface
  the lines that begin with \<^verbatim>\<open>INFO:\<close> or \<^verbatim>\<open>ERROR:\<close> verbatim, ignoring every other line.
  This definition follows those words, for comparison with \<^const>\<open>on_stdout_data\<close>.
\<close>

definition spec_surface_line :: "string \<Rightarrow> notification list" where
  "spec_surface_line l =
     (if startsWith l ''INFO:'' then [InformationMessage l]
      else if startsWith l ''ERROR:'' then [ErrorMessage l]
      else [])"

definition spec_surface_lines :: "string \<Rightarrow> notification list" where
  "spec_surface_lines data = concat (map spec_surface_line (split_on CHR 0x0A data))"

section \<open>The Citation Resolver\<close>

text \<open>
  Modelled from the spec: the Citation Resolver (section 4.2) belongs to
  \<^verbatim>\<open>src/python/pdf_processor.py\<close>, the script that \<^const>\<open>processPDF\<close> spawns and that is
  not among the sources. The bibliographic registry, the language model and the record
  built from the file are its collaborators; each call either finds something, finds
  nothing, or is unavailable (a time-out, an error of the network).
\<close>

datatype tier = DoiExact | TitleExact | TitleGuess | Unresolved

datatype error_kind =
  UnreadablePdf | ResolutionUnavailable | TemplateNotFound | NoteWriteConflict
  | BibliographyWriteFailure

datatype 'a lookup = Found 'a | NotFound | Unavailable

record bibtex_record =
  entry_type :: string
  citation_key :: string
  title :: string
  authors :: "string list"
  year :: string
  venue :: string
  raw :: string

record citation_candidate =
  doi :: "string option"
  guessed_title :: "string option"

record source_document =
  file_path :: string
  text_snippet :: string
  properties :: "(string \<times> string) list"

record collaborators =
  registry_doi :: "string \<Rightarrow> bibtex_record lookup"
  registry_title :: "string \<Rightarrow> (bibtex_record \<times> nat) lookup"
  similarity_threshold :: nat
  language_model :: "string \<Rightarrow> string \<Rightarrow> bibtex_record lookup"
  record_from_file :: "string \<Rightarrow> (string \<times> string) list \<Rightarrow> bibtex_record"

text \<open>
  Modelled from the spec: strategy 1, the lookup of the DOI; a DOI that the registry does
  not know (HTTP 404) is not an error.
\<close>

definition doi_strategy :: "collaborators \<Rightarrow> citation_candidate \<Rightarrow> bibtex_record option" where
  "doi_strategy c cand =
     (case doi cand of
        None \<Rightarrow> None
      | Some d \<Rightarrow> (case registry_doi c d of Found r \<Rightarrow> Some r | _ \<Rightarrow> None))"

text \<open>
  Modelled from the spec: strategy 2, the lookup by title; only a match above the
  similarity threshold is accepted.
\<close>

definition title_strategy :: "collaborators \<Rightarrow> citation_candidate \<Rightarrow> bibtex_record option" where
  "title_strategy c cand =
     (case guessed_title cand of
        None \<Rightarrow> None
      | Some t \<Rightarrow>
          (case registry_title c t of
             Found (r, similarity) \<Rightarrow> if similarity_threshold c < similarity then Some r else None
           | _ \<Rightarrow> None))"

text \<open>
  Modelled from the spec: strategy 3, the language model, asked only when an API key is
  configured.
\<close>

definition model_strategy :: "collaborators \<Rightarrow> string option \<Rightarrow> source_document \<Rightarrow> bibtex_record option" where
  "model_strategy c apiKey document =
     (case apiKey of
        None \<Rightarrow> None
      | Some k \<Rightarrow>
          if k = [] then None
          else (case language_model c k (text_snippet document) of Found r \<Rightarrow> Some r | _ \<Rightarrow> None))"

text \<open>
  Modelled from the spec: \<^verbatim>\<open>resolve\<close> tries the three strategies in strict priority order
  and falls back to the record built from the file name and the file's metadata.
\<close>

definition resolve ::
  "collaborators \<Rightarrow> string option \<Rightarrow> source_document \<Rightarrow> citation_candidate \<Rightarrow> error_kind + tier \<times> bibtex_record" where
  "resolve c apiKey document cand =
     (case doi_strategy c cand of
        Some r \<Rightarrow> Inr (DoiExact, r)
      | None \<Rightarrow>
          (case title_strategy c cand of
             Some r \<Rightarrow> Inr (TitleExact, r)
           | None \<Rightarrow>
               (case model_strategy c apiKey document of
                  Some r \<Rightarrow> Inr (TitleGuess, r)
                | None \<Rightarrow>
                    Inr (Unresolved, record_from_file c (file_path document) (properties document)))))"

text \<open>A record built from the file name alone, to run \<^const>\<open>resolve\<close> on an example.\<close>

definition sample_record :: "string \<Rightarrow> bibtex_record" where
  "sample_record t = \<lparr>entry_type = ''misc'', citation_key = [], title = t, authors = [],
     year = [], venue = [], raw = []\<rparr>"

section \<open>Properties of the string operations\<close>

lemma startsWith_Nil [simp]: "startsWith s []"
  by (simp add: startsWith_def)

lemma startsWith_append [simp]: "startsWith (p @ s) p"
  by (simp add: startsWith_def)

lemma indexOf_prefix: "startsWith s p \<Longrightarrow> indexOf s p = Some 0"
  by (cases s) (simp_all add: startsWith_def)

lemma replace_prefix_empty: "startsWith s p \<Longrightarrow> replace s p [] = drop (length p) s"
  by (simp add: replace_def indexOf_prefix)

lemma getSubstitution_literal:
  "CHR ''$'' \<notin> set r \<Longrightarrow> getSubstitution m b a r = r"
  by (induction m b a r rule: getSubstitution.induct) auto

lemma replace_prefix_literal:
  "startsWith s p \<Longrightarrow> CHR ''$'' \<notin> set r \<Longrightarrow> replace s p r = r @ drop (length p) s"
  by (simp add: replace_def indexOf_prefix getSubstitution_literal)

text \<open>
  The rendering of an exit code determines the code: digits are rendered apart, a negative
  number alone begins with a minus sign, and \<^verbatim>\<open>null\<close> alone begins with a letter.
\<close>

lemma digit_code: "d < 10 \<Longrightarrow> (of_char (digit d) :: nat) = 48 + d"
proof -
  assume "d < 10"
  then have "d \<in> {0, 1, 2, 3, 4, 5, 6, 7, 8, 9}" by auto
  then show ?thesis by (auto simp: digit_def)
qed

lemma digit_inject: "a < 10 \<Longrightarrow> b < 10 \<Longrightarrow> digit a = digit b \<Longrightarrow> a = b"
proof -
  assume a: "a < 10" and b: "b < 10" and eq: "digit a = digit b"
  have "48 + a = (of_char (digit a) :: nat)" using digit_code [OF a] by (rule sym)
  also have "\<dots> = of_char (digit b)" unfolding eq by (rule refl)
  also have "\<dots> = 48 + b" by (rule digit_code [OF b])
  finally show "a = b" by arith
qed

lemma decimal_not_Nil: "decimal n \<noteq> []"
  by (subst decimal.simps) simp

lemma decimal_digits: "c \<in> set (decimal n) \<Longrightarrow> \<exists>d<10. c = digit d"
proof (induction n rule: decimal.induct)
  case (1 n)
  show ?case
  proof (cases "n < 10")
    case True
    with "1.prems" show ?thesis
      by (subst (asm) decimal.simps) auto
  next
    case False
    with "1.prems" have "c \<in> set (decimal (n div 10)) \<or> c = digit (n mod 10)"
      by (subst (asm) decimal.simps) auto
    then show ?thesis
    proof
      assume "c \<in> set (decimal (n div 10))"
      with False "1.IH" show ?thesis by blast
    next
      assume "c = digit (n mod 10)"
      moreover have "n mod 10 < 10" by simp
      ultimately show ?thesis by blast
    qed
  qed
qed

lemma decimal_inject: "decimal a = decimal b \<Longrightarrow> a = b"
proof (induction a arbitrary: b rule: decimal.induct)
  case (1 a)
  show ?case
  proof (cases "a < 10")
    case True
    then have da: "decimal a = [digit a]" by (subst decimal.simps) simp
    show ?thesis
    proof (cases "b < 10")
      case b: True
      then have "decimal b = [digit b]" by (subst decimal.simps) simp
      with da "1.prems" have "digit a = digit b" by simp
      with True b show ?thesis by (rule digit_inject)
    next
      case b: False
      then have "decimal b = decimal (b div 10) @ [digit (b mod 10)]"
        by (subst decimal.simps) simp
      with da "1.prems" have "decimal (b div 10) = []" by simp
      with decimal_not_Nil show ?thesis by blast
    qed
  next
    case False
    then have da: "decimal a = decimal (a div 10) @ [digit (a mod 10)]"
      by (subst decimal.simps) simp
    show ?thesis
    proof (cases "b < 10")
      case b: True
      then have "decimal b = [digit b]" by (subst decimal.simps) simp
      with da "1.prems" have "decimal (a div 10) = []" by simp
      with decimal_not_Nil show ?thesis by blast
    next
      case b: False
      then have "decimal b = decimal (b div 10) @ [digit (b mod 10)]"
        by (subst decimal.simps) simp
      with da "1.prems" have eq: "decimal (a div 10) = decimal (b div 10)"
        and dg: "digit (a mod 10) = digit (b mod 10)" by simp_all
      from "1.IH" [OF False eq] have "a div 10 = b div 10" .
      moreover from dg have "a mod 10 = b mod 10" by (intro digit_inject) simp_all
      ultimately show ?thesis by (metis div_mult_mod_eq)
    qed
  qed
qed

lemma digit_not_minus: "d < 10 \<Longrightarrow> digit d \<noteq> CHR ''-'' \<and> digit d \<noteq> CHR ''n''"
proof -
  assume "d < 10"
  then have "d \<in> {0, 1, 2, 3, 4, 5, 6, 7, 8, 9}" by auto
  then show ?thesis by (auto simp: digit_def)
qed

lemma decimal_hd: "hd (decimal n) \<noteq> CHR ''-'' \<and> hd (decimal n) \<noteq> CHR ''n''"
proof -
  have "hd (decimal n) \<in> set (decimal n)" using decimal_not_Nil by simp
  then obtain d where "d < 10" "hd (decimal n) = digit d" using decimal_digits by blast
  then show ?thesis using digit_not_minus by simp
qed

lemma numberToString_inject: "numberToString a = numberToString b \<Longrightarrow> a = b"
proof -
  assume eq: "numberToString a = numberToString b"
  consider "a < 0" "b < 0" | "a < 0" "\<not> b < 0" | "\<not> a < 0" "b < 0" | "\<not> a < 0" "\<not> b < 0"
    by blast
  then show ?thesis
  proof cases
    case 1
    with eq have "decimal (nat (- a)) = decimal (nat (- b))" by (simp add: numberToString_def)
    then have "nat (- a) = nat (- b)" by (rule decimal_inject)
    with 1 show ?thesis by simp
  next
    case 2
    with eq have "decimal (nat b) = CHR ''-'' # decimal (nat (- a))"
      by (simp add: numberToString_def)
    then have "hd (decimal (nat b)) = CHR ''-''" by simp
    with decimal_hd show ?thesis by blast
  next
    case 3
    with eq have "decimal (nat a) = CHR ''-'' # decimal (nat (- b))"
      by (simp add: numberToString_def)
    then have "hd (decimal (nat a)) = CHR ''-''" by simp
    with decimal_hd show ?thesis by blast
  next
    case 4
    with eq have "decimal (nat a) = decimal (nat b)" by (simp add: numberToString_def)
    then have "nat a = nat b" by (rule decimal_inject)
    with 4 show ?thesis by simp
  qed
qed

lemma numberToString_hd: "hd (numberToString a) \<noteq> CHR ''n''"
  using decimal_hd by (simp add: numberToString_def)

lemma codeToString_inject: "codeToString a = codeToString b \<Longrightarrow> a = b"
proof -
  assume eq: "codeToString a = codeToString b"
  show ?thesis
  proof (cases a)
    case None
    show ?thesis
    proof (cases b)
      case b: None
      with None show ?thesis by simp
    next
      case b: (Some y)
      with None eq have "numberToString y = ''null''" by (simp add: codeToString_def)
      then have "hd (numberToString y) = CHR ''n''" by simp
      with numberToString_hd show ?thesis by blast
    qed
  next
    case (Some x)
    show ?thesis
    proof (cases b)
      case b: None
      with Some eq have "numberToString x = ''null''" by (simp add: codeToString_def)
      then have "hd (numberToString x) = CHR ''n''" by simp
      with numberToString_hd show ?thesis by blast
    next
      case b: (Some y)
      with Some eq have "numberToString x = numberToString y" by (simp add: codeToString_def)
      then have "x = y" by (rule numberToString_inject)
      with Some b show ?thesis by simp
    qed
  qed
qed

section \<open>What the listeners leave alone\<close>

text \<open>
  A listener only appends notifications and console lines, and what it appends depends on
  the event alone; only a \<^verbatim>\<open>close\<close> event touches the promise.
\<close>

lemma handle_event_frame:
  "\<exists>P N C. \<forall>p st. handle_event e (p, st) =
      (P p, st\<lparr>notifications := notifications st @ N, console := console st @ C\<rparr>)"
proof (cases e)
  case (Stdout d)
  show ?thesis
    unfolding Stdout
    apply (rule exI [of _ "\<lambda>p. p"])
    apply (rule exI [of _ "if startsWith (trim d) ''INFO:''
        then [InformationMessage (trim (replace (trim d) ''INFO:'' []))]
        else if startsWith (trim d) ''ERROR:''
        then [ErrorMessage (trim (replace (trim d) ''ERROR:'' []))] else []"])
    apply (rule exI [of _ "[[''STDOUT:'', trim d]]"])
    apply (simp add: on_stdout_data_def Let_def showInformationMessage_def
        showErrorMessage_def console_log_def)
    done
next
  case (Stderr d)
  show ?thesis
    unfolding Stderr
    apply (rule exI [of _ "\<lambda>p. p"])
    apply (rule exI [of _ "[ErrorMessage (''Python Error: '' @ trim d)]"])
    apply (rule exI [of _ "[[''STDERR:'', trim d]]"])
    apply (simp add: on_stderr_data_def Let_def showErrorMessage_def console_log_def)
    done
next
  case (Close code)
  show ?thesis
    unfolding Close
    apply (rule exI [of _ "\<lambda>p. settle p (if code = Some 0 then Resolved
        else Rejected (''Process failed with code '' @ codeToString code))"])
    apply (rule exI [of _ "if code = Some 0
        then [InformationMessage ''PDF processed successfully!''] else []"])
    apply (rule exI [of _ "[]"])
    apply (simp add: on_close_def showInformationMessage_def)
    done
qed

lemma run_events_frame:
  "\<exists>P N C. \<forall>p st. run_events evs (p, st) =
      (P p, st\<lparr>notifications := notifications st @ N, console := console st @ C\<rparr>)"
proof (induction evs)
  case Nil
  show ?case
    by (rule exI [of _ "\<lambda>p. p"], rule exI [of _ "[]"], rule exI [of _ "[]"]) simp
next
  case (Cons e evs)
  obtain P1 N1 C1 where h1: "\<And>p st. handle_event e (p, st) =
      (P1 p, st\<lparr>notifications := notifications st @ N1, console := console st @ C1\<rparr>)"
    using handle_event_frame by blast
  obtain P2 N2 C2 where h2: "\<And>p st. run_events evs (p, st) =
      (P2 p, st\<lparr>notifications := notifications st @ N2, console := console st @ C2\<rparr>)"
    using Cons.IH by blast
  show ?case
    by (rule exI [of _ "\<lambda>p. P2 (P1 p)"], rule exI [of _ "N1 @ N2"], rule exI [of _ "C1 @ C2"])
       (simp add: h1 h2)
qed

lemma run_events_spawned: "spawned (snd (run_events evs (p, st))) = spawned st"
  using run_events_frame [of evs] by auto

lemma run_events_settings: "settings (snd (run_events evs (p, st))) = settings st"
  using run_events_frame [of evs] by auto

lemma run_events_commands: "commands (snd (run_events evs (p, st))) = commands st"
  using run_events_frame [of evs] by auto

lemma run_events_append:
  "run_events (xs @ ys) ps = run_events ys (run_events xs ps)"
  by (induction xs arbitrary: ps) simp_all

lemma run_events_settled:
  "p \<noteq> Pending \<Longrightarrow> fst (run_events evs (p, st)) = p"
proof (induction evs arbitrary: st)
  case Nil
  show ?case by simp
next
  case (Cons e evs)
  then show ?case
    by (cases e; cases p) (simp_all add: on_close_def settle_def)
qed

lemma run_events_no_close:
  "\<forall>code. Close code \<notin> set evs \<Longrightarrow> fst (run_events evs (p, st)) = p"
proof (induction evs arbitrary: st)
  case Nil
  show ?case by simp
next
  case (Cons e evs)
  show ?case
  proof (cases e)
    case (Close code)
    with Cons.prems show ?thesis by auto
  qed (use Cons in simp_all)
qed

lemma await_or_catch_spawned: "spawned (snd (await_or_catch ps)) = spawned (snd ps)"
  by (simp add: await_or_catch_def showErrorMessage_def split: promise.split)

lemma await_or_catch_settings: "settings (snd (await_or_catch ps)) = settings (snd ps)"
  by (simp add: await_or_catch_def showErrorMessage_def split: promise.split)

text \<open>The one process that \<^const>\<open>processPDF\<close> spawns, whatever the process then does.\<close>

lemma processPDF_spawned:
  "spawned (snd (processPDF env pdfPath outputPath events st)) =
     spawned st @
     [\<lparr>spawn_command = or_else (config_get st ''pythonPath'') ''python'',
       spawn_args =
         build_args
           (path_join env [extensionPath env, ''src'', ''python'', ''pdf_processor.py''])
           pdfPath (resolve_outputPath env outputPath)
           (config_get st ''openaiApiKey'') (config_get st ''templatePath''),
       spawn_cwd = Some (extensionPath env)\<rparr>]"
  by (simp add: processPDF_def Let_def run_events_spawned spawn_def console_log_def)

lemma build_args_shape:
  "build_args script pdfPath out apiKey templatePath =
     [script, pdfPath, ''-o'', out]
     @ (if configured apiKey then [''-k'', the apiKey] else [])
     @ (if configured templatePath then [''-t'', the templatePath] else [])"
  by (simp add: build_args_def push_option_def configured_def split: option.split)

section \<open>The folder command\<close>

text \<open>
  Claim C1 has the folder command run the single-file pipeline on every PDF of the folder.
  \<^const>\<open>processPDFFolder\<close> has an empty body: whatever the folder, the target and the
  settings, the command returns with the state as it was, so it spawns nothing, shows
  nothing and reports no result for any file.
\<close>

theorem processFolder_does_nothing:
  "processFolder env uri dialog st = (Returned, st)"
  by (simp add: processFolder_def processPDFFolder_def await_or_catch_def split: option.split)

section \<open>The output of the spawned process\<close>

text \<open>
  Claim C2, as amended: the listener handles each chunk of standard output as a whole. It
  trims the chunk; when the trimmed chunk begins with \<^verbatim>\<open>INFO:\<close> it shows one
  informational message, the chunk without that prefix, trimmed again; otherwise, when it
  begins with \<^verbatim>\<open>ERROR:\<close>, it shows one error message built the same way; any other
  chunk shows nothing. Lines inside the chunk are not looked at.
\<close>

theorem stdout_chunk_surfaced_whole:
  "notifications (on_stdout_data data st) =
     notifications st @
     (if startsWith (trim data) ''INFO:''
      then [InformationMessage (trim (drop (length ''INFO:'') (trim data)))]
      else if startsWith (trim data) ''ERROR:''
      then [ErrorMessage (trim (drop (length ''ERROR:'') (trim data)))]
      else [])"
  by (simp add: on_stdout_data_def Let_def showInformationMessage_def showErrorMessage_def
      console_log_def replace_prefix_empty)

text \<open>
  Claim C2 as stated fails on a chunk of two lines whose second line begins with
  \<^verbatim>\<open>INFO:\<close>: read line by line that line is surfaced, the listener shows nothing.
\<close>

theorem stdout_line_by_line_counterexample:
  "spec_surface_lines ''DEBUG: start\<newline>INFO: done\<newline>'' = [InformationMessage ''INFO: done'']
   \<and> notifications (on_stdout_data ''DEBUG: start\<newline>INFO: done\<newline>'' initial_state) = []"
  by (simp add: spec_surface_lines_def spec_surface_line_def startsWith_def on_stdout_data_def
      Let_def console_log_def initial_state_def trim_def trimStart_def trimEnd_def isWhiteSpace_def)

section \<open>The command line\<close>

text \<open>
  Claim C3: \<^const>\<open>processPDF\<close> spawns one process, the interpreter, whose arguments are the
  script, the PDF path, \<^verbatim>\<open>-o\<close> and the resolved output directory, followed by \<^verbatim>\<open>-k\<close>
  and the API key exactly when an API key is configured, followed by \<^verbatim>\<open>-t\<close> and the
  template path exactly when a template path is configured, and nothing else.
\<close>

theorem processPDF_command_line:
  "spawned (snd (processPDF env pdfPath outputPath events st)) =
     spawned st @
     [\<lparr>spawn_command = or_else (config_get st ''pythonPath'') ''python'',
       spawn_args =
         [path_join env [extensionPath env, ''src'', ''python'', ''pdf_processor.py''],
          pdfPath, ''-o'', resolve_outputPath env outputPath]
         @ (if configured (config_get st ''openaiApiKey'')
            then [''-k'', the (config_get st ''openaiApiKey'')] else [])
         @ (if configured (config_get st ''templatePath'')
            then [''-t'', the (config_get st ''templatePath'')] else []),
       spawn_cwd = Some (extensionPath env)\<rparr>]"
  unfolding processPDF_spawned build_args_shape by (rule refl)

section \<open>The exit code\<close>

text \<open>
  Claim C4: when the process closes, exit code 0 resolves the promise of
  \<^const>\<open>processPDF\<close>, whatever the process wrote before (\<^verbatim>\<open>ERROR:\<close> lines included), and
  every other exit code rejects it with an error whose message ends with the code (and
  so tells the codes apart, by \<open>codeToString_inject\<close>). What happens after the first
  \<^verbatim>\<open>close\<close> does not change the outcome.
\<close>

theorem exit_code_settles_promise:
  assumes "\<forall>c. Close c \<notin> set earlier"
  shows "fst (processPDF env pdfPath outputPath (earlier @ Close code # later) st) =
     (if code = Some 0 then Resolved
      else Rejected (''Process failed with code '' @ codeToString code))"
proof -
  have step: "fst (run_events (earlier @ Close code # later) (Pending, s)) =
     (if code = Some 0 then Resolved
      else Rejected (''Process failed with code '' @ codeToString code))" for s
  proof -
    obtain s1 where s1: "run_events earlier (Pending, s) = (Pending, s1)"
      using run_events_no_close [OF assms, of Pending s]
      by (cases "run_events earlier (Pending, s)") simp
    have s2: "fst (on_close code (Pending, s1)) =
       (if code = Some 0 then Resolved
        else Rejected (''Process failed with code '' @ codeToString code))"
      by (simp add: on_close_def settle_def)
    have settled: "fst (on_close code (Pending, s1)) \<noteq> Pending"
      by (simp add: s2)
    have "fst (run_events later (on_close code (Pending, s1))) = fst (on_close code (Pending, s1))"
      using run_events_settled [OF settled, of later "snd (on_close code (Pending, s1))"]
      by simp
    then show ?thesis
      by (simp add: run_events_append s1 s2)
  qed
  show ?thesis
    unfolding processPDF_def Let_def by (rule step)
qed

theorem exit_code_settles_promise_witness:
  "(\<forall>c. Close c \<notin> set [Stdout ''ERROR: a.pdf: unreadable'', Stderr ''warning''])
   \<and> fst (processPDF (posix_env ''/ext'' ''/home/u'' ''/work'') ''/docs/a.pdf'' ''/out''
        ([Stdout ''ERROR: a.pdf: unreadable'', Stderr ''warning''] @ Close (Some 0) # [])
        initial_state) = Resolved
   \<and> fst (processPDF (posix_env ''/ext'' ''/home/u'' ''/work'') ''/docs/a.pdf'' ''/out''
        ([Stdout ''ERROR: a.pdf: unreadable'', Stderr ''warning''] @ Close (Some 2) # [])
        initial_state) = Rejected ''Process failed with code 2''"
proof -
  have h: "\<forall>c. Close c \<notin> set [Stdout ''ERROR: a.pdf: unreadable'', Stderr ''warning'']"
    by simp
  have two: "codeToString (Some 2) = ''2''"
    by (simp add: codeToString_def numberToString_def decimal.simps digit_def)
  show ?thesis
    using h exit_code_settles_promise [OF h, where code = "Some 0"]
      exit_code_settles_promise [OF h, where code = "Some 2"] two
    by simp
qed

section \<open>Dismissed dialogs\<close>

text \<open>
  Claim C10: a command invoked without a target whose dialog the user dismisses (the
  dialog answers \<^verbatim>\<open>undefined\<close>, or an empty selection) returns and leaves the state as
  it was: no process spawned, no setting modified.
\<close>

theorem dismissed_dialog_changes_nothing:
  assumes "dialog = None \<or> dialog = Some []"
  shows "run_command env c None dialog events st = (Returned, st)"
  using assms
  by (cases c)
     (auto simp: processFile_def processFolder_def selectTemplate_def selectOutput_def
        selectBibtex_def select_path_def choose_target_def)

theorem dismissed_dialog_changes_nothing_witness:
  "((None :: string list option) = None \<or> (None :: string list option) = Some [])
   \<and> run_command (posix_env ''/ext'' ''/home/u'' ''/work'') ProcessFile None None
        [Close (Some 0)] initial_state = (Returned, initial_state)
   \<and> spawned initial_state = []"
  using dismissed_dialog_changes_nothing [of None "posix_env ''/ext'' ''/home/u'' ''/work''"
      ProcessFile "[Close (Some 0)]" initial_state]
  by (simp add: initial_state_def)

section \<open>Settings that are not read\<close>

lemma config_get_declared:
  assumes "\<forall>k\<in>set (map fst configuration_properties). s' k = settings st k"
    and "key \<in> {''outputPath'', ''openaiApiKey'', ''templatePath'', ''pythonPath''}"
  shows "config_get (st\<lparr>settings := s'\<rparr>) key = config_get st key"
  using assms by (auto simp: config_get_def configuration_properties_def)

lemma processPDF_settings_frame:
  assumes "\<forall>k\<in>set (map fst configuration_properties). s' k = settings st k"
  shows "processPDF env pdfPath outputPath events (st\<lparr>settings := s'\<rparr>) =
     map_prod id (\<lambda>r. r\<lparr>settings := s'\<rparr>) (processPDF env pdfPath outputPath events st)"
proof -
  obtain P N C where frame: "\<And>p s. run_events events (p, s) =
      (P p, s\<lparr>notifications := notifications s @ N, console := console s @ C\<rparr>)"
    using run_events_frame by blast
  show ?thesis
    by (simp add: processPDF_def Let_def frame spawn_def console_log_def
        config_get_declared [OF assms])
qed

lemma await_or_catch_settings_frame:
  "await_or_catch (map_prod id (\<lambda>r. r\<lparr>settings := s'\<rparr>) ps) =
     map_prod id (\<lambda>r. r\<lparr>settings := s'\<rparr>) (await_or_catch ps)"
  by (cases ps) (simp add: await_or_catch_def showErrorMessage_def split: promise.split)

section \<open>The settings\<close>

text \<open>
  What reading one of the four settings gives: the user's value, else the default that
  \<^verbatim>\<open>package.json\<close> contributes.
\<close>

lemma config_get_values:
  "config_get st ''outputPath'' =
     Some (case settings st ''pdfProcessor.outputPath'' of
             Some s \<Rightarrow> s | None \<Rightarrow> ''~/Downolads/PDF_Output'')"
  "config_get st ''openaiApiKey'' =
     Some (case settings st ''pdfProcessor.openaiApiKey'' of Some s \<Rightarrow> s | None \<Rightarrow> [])"
  "config_get st ''templatePath'' =
     Some (case settings st ''pdfProcessor.templatePath'' of
             Some s \<Rightarrow> s | None \<Rightarrow> ''~/Downolads/template.md'')"
  "config_get st ''pythonPath'' =
     Some (case settings st ''pdfProcessor.pythonPath'' of Some s \<Rightarrow> s | None \<Rightarrow> ''python'')"
  by (simp_all add: config_get_def configuration_properties_def split: option.split)

text \<open>
  Claim C5: the settings that \<^verbatim>\<open>package.json\<close> declares are the output path, the template
  path, the API key, the interpreter path, the validate-write-permission flag and the
  bibliography-file path, and no others; and a processing invocation takes its values from
  them. With each of the four settings read as the user's value, else the declared
  default, the single-file command spawns the interpreter named by the interpreter path,
  with the output path, the API key and the template path of the configuration as
  arguments (an empty value counting as absent), and the folder command takes its output
  path from the same setting. Settings outside the declared ones are not read: run with
  other settings that agree on the declared ones, both commands do the same.
\<close>

theorem processing_reads_declared_settings:
  assumes agree: "\<forall>k\<in>set (map fst configuration_properties). s' k = settings st k"
    and target: "choose_target uri dialog = Some fsPath"
    and outputPath: "outputPath =
      (case settings st ''pdfProcessor.outputPath'' of
         Some s \<Rightarrow> s | None \<Rightarrow> ''~/Downolads/PDF_Output'')"
    and apiKey: "apiKey =
      (case settings st ''pdfProcessor.openaiApiKey'' of Some s \<Rightarrow> s | None \<Rightarrow> [])"
    and templatePath: "templatePath =
      (case settings st ''pdfProcessor.templatePath'' of
         Some s \<Rightarrow> s | None \<Rightarrow> ''~/Downolads/template.md'')"
    and pythonPath: "pythonPath =
      (case settings st ''pdfProcessor.pythonPath'' of Some s \<Rightarrow> s | None \<Rightarrow> ''python'')"
  shows "set (map fst configuration_properties) =
       {''pdfProcessor.outputPath'', ''pdfProcessor.templatePath'',
        ''pdfProcessor.openaiApiKey'', ''pdfProcessor.pythonPath'',
        ''pdfProcessor.validateWritePermission'', ''pdfProcessor.bibtexPath''}
     \<and> spawned (snd (processFile env uri dialog events st)) =
         spawned st @
         [\<lparr>spawn_command = (if pythonPath = [] then ''python'' else pythonPath),
           spawn_args =
             [path_join env [extensionPath env, ''src'', ''python'', ''pdf_processor.py''],
              fsPath, ''-o'',
              resolve_outputPath env
                (if outputPath = [] then path_dirname env fsPath else outputPath)]
             @ (if apiKey = [] then [] else [''-k'', apiKey])
             @ (if templatePath = [] then [] else [''-t'', templatePath]),
           spawn_cwd = Some (extensionPath env)\<rparr>]
     \<and> processFolder_outputPath st fsPath = (if outputPath = [] then fsPath else outputPath)
     \<and> processFile env uri dialog events (st\<lparr>settings := s'\<rparr>) =
         map_prod id (\<lambda>r. r\<lparr>settings := s'\<rparr>) (processFile env uri dialog events st)
     \<and> processFolder env uri dialog (st\<lparr>settings := s'\<rparr>) =
         map_prod id (\<lambda>r. r\<lparr>settings := s'\<rparr>) (processFolder env uri dialog st)"
proof (intro conjI)
  show "set (map fst configuration_properties) =
       {''pdfProcessor.outputPath'', ''pdfProcessor.templatePath'',
        ''pdfProcessor.openaiApiKey'', ''pdfProcessor.pythonPath'',
        ''pdfProcessor.validateWritePermission'', ''pdfProcessor.bibtexPath''}"
    by (auto simp: configuration_properties_def)
  have vals: "config_get st ''outputPath'' = Some outputPath"
    "config_get st ''openaiApiKey'' = Some apiKey"
    "config_get st ''templatePath'' = Some templatePath"
    "config_get st ''pythonPath'' = Some pythonPath"
    unfolding outputPath apiKey templatePath pythonPath by (rule config_get_values)+
  show "spawned (snd (processFile env uri dialog events st)) =
         spawned st @
         [\<lparr>spawn_command = (if pythonPath = [] then ''python'' else pythonPath),
           spawn_args =
             [path_join env [extensionPath env, ''src'', ''python'', ''pdf_processor.py''],
              fsPath, ''-o'',
              resolve_outputPath env
                (if outputPath = [] then path_dirname env fsPath else outputPath)]
             @ (if apiKey = [] then [] else [''-k'', apiKey])
             @ (if templatePath = [] then [] else [''-t'', templatePath]),
           spawn_cwd = Some (extensionPath env)\<rparr>]"
    by (simp add: processFile_def target await_or_catch_spawned processPDF_spawned
        processFile_outputPath_def vals or_else_def build_args_def push_option_def)
  show "processFolder_outputPath st fsPath = (if outputPath = [] then fsPath else outputPath)"
    by (simp add: processFolder_outputPath_def vals or_else_def)
  have out: "config_get (st\<lparr>settings := s'\<rparr>) ''outputPath'' = config_get st ''outputPath''"
    by (rule config_get_declared [OF agree]) simp
  show "processFile env uri dialog events (st\<lparr>settings := s'\<rparr>) =
         map_prod id (\<lambda>r. r\<lparr>settings := s'\<rparr>) (processFile env uri dialog events st)"
    by (simp add: processFile_def processFile_outputPath_def out
        processPDF_settings_frame [OF agree] await_or_catch_settings_frame
        split: option.split)
  show "processFolder env uri dialog (st\<lparr>settings := s'\<rparr>) =
         map_prod id (\<lambda>r. r\<lparr>settings := s'\<rparr>) (processFolder env uri dialog st)"
    by (simp add: processFolder_def processPDFFolder_def await_or_catch_def
        split: option.split)
qed

theorem processing_reads_declared_settings_witness:
  "spawned (snd (processFile (posix_env ''/ext'' ''/home/u'' ''/work'') (Some ''/docs/p.pdf'')
        None [Close (Some 0)]
        (initial_state\<lparr>settings :=
           [''pdfProcessor.pythonPath'' \<mapsto> ''/usr/bin/python3'',
            ''pdfProcessor.openaiApiKey'' \<mapsto> ''sk-1'',
            ''pdfProcessor.outputPath'' \<mapsto> ''/notes'']\<rparr>))) =
     [\<lparr>spawn_command = ''/usr/bin/python3'',
       spawn_args = [''/ext/src/python/pdf_processor.py'', ''/docs/p.pdf'', ''-o'', ''/notes'',
          ''-k'', ''sk-1'', ''-t'', ''~/Downolads/template.md''],
       spawn_cwd = Some ''/ext''\<rparr>]
   \<and> processFolder_outputPath
        (initial_state\<lparr>settings :=
           [''pdfProcessor.pythonPath'' \<mapsto> ''/usr/bin/python3'',
            ''pdfProcessor.openaiApiKey'' \<mapsto> ''sk-1'',
            ''pdfProcessor.outputPath'' \<mapsto> ''/notes'']\<rparr>) ''/docs/p.pdf'' = ''/notes''
   \<and> spawned (snd (processFile (posix_env ''/ext'' ''/home/u'' ''/work'') (Some ''/docs/p.pdf'')
        None [Close (Some 0)] initial_state)) =
     [\<lparr>spawn_command = ''python'',
       spawn_args = [''/ext/src/python/pdf_processor.py'', ''/docs/p.pdf'', ''-o'',
          ''/home/u/Downolads/PDF_Output'', ''-t'', ''~/Downolads/template.md''],
       spawn_cwd = Some ''/ext''\<rparr>]"
proof -
  let ?env = "posix_env ''/ext'' ''/home/u'' ''/work''"
  let ?m = "[''pdfProcessor.pythonPath'' \<mapsto> ''/usr/bin/python3'',
            ''pdfProcessor.openaiApiKey'' \<mapsto> ''sk-1'',
            ''pdfProcessor.outputPath'' \<mapsto> ''/notes'']"
  let ?st = "initial_state\<lparr>settings := ?m\<rparr>"
  have target: "choose_target (Some ''/docs/p.pdf'') None = Some ''/docs/p.pdf''"
    by (simp add: choose_target_def)
  have agree: "\<forall>k\<in>set (map fst configuration_properties).
      (?m(''editor.fontSize'' \<mapsto> ''12'')) k = settings ?st k"
    by (simp add: configuration_properties_def)
  have agree0: "\<forall>k\<in>set (map fst configuration_properties).
      (Map.empty(''editor.fontSize'' \<mapsto> ''12'')) k = settings initial_state k"
    by (simp add: configuration_properties_def initial_state_def)
  have v: "''/notes'' = (case settings ?st ''pdfProcessor.outputPath'' of
         Some s \<Rightarrow> s | None \<Rightarrow> ''~/Downolads/PDF_Output'')"
    "''sk-1'' = (case settings ?st ''pdfProcessor.openaiApiKey'' of Some s \<Rightarrow> s | None \<Rightarrow> [])"
    "''~/Downolads/template.md'' = (case settings ?st ''pdfProcessor.templatePath'' of
         Some s \<Rightarrow> s | None \<Rightarrow> ''~/Downolads/template.md'')"
    "''/usr/bin/python3'' = (case settings ?st ''pdfProcessor.pythonPath'' of
         Some s \<Rightarrow> s | None \<Rightarrow> ''python'')"
    by simp_all
  have v0: "''~/Downolads/PDF_Output'' = (case settings initial_state ''pdfProcessor.outputPath'' of
         Some s \<Rightarrow> s | None \<Rightarrow> ''~/Downolads/PDF_Output'')"
    "[] = (case settings initial_state ''pdfProcessor.openaiApiKey'' of Some s \<Rightarrow> s | None \<Rightarrow> [])"
    "''~/Downolads/template.md'' = (case settings initial_state ''pdfProcessor.templatePath'' of
         Some s \<Rightarrow> s | None \<Rightarrow> ''~/Downolads/template.md'')"
    "''python'' = (case settings initial_state ''pdfProcessor.pythonPath'' of
         Some s \<Rightarrow> s | None \<Rightarrow> ''python'')"
    by (simp_all add: initial_state_def)
  note t = processing_reads_declared_settings [OF agree target v, of ?env "[Close (Some 0)]"]
  note t0 = processing_reads_declared_settings [OF agree0 target v0, of ?env "[Close (Some 0)]"]
  have ext: "extensionPath ?env = ''/ext''"
    by (simp add: posix_env_def)
  have script: "path_join ?env [''/ext'', ''src'', ''python'', ''pdf_processor.py'']
      = ''/ext/src/python/pdf_processor.py''"
    by (simp add: posix_env_def posix_join_def posix_normalize_def isAbsolute_def
        startsWith_def normalizeString_def)
  have out: "resolve_outputPath ?env ''/notes'' = ''/notes''"
    by (simp add: resolve_outputPath_def posix_env_def startsWith_def
        posix_resolve_def isAbsolute_def normalizeString_def)
  have out0: "resolve_outputPath ?env ''~/Downolads/PDF_Output'' = ''/home/u/Downolads/PDF_Output''"
    by (simp add: resolve_outputPath_def posix_env_def startsWith_def replace_def
        posix_resolve_def isAbsolute_def normalizeString_def)
  have a: "spawned (snd (processFile ?env (Some ''/docs/p.pdf'') None [Close (Some 0)] ?st)) =
     [\<lparr>spawn_command = ''/usr/bin/python3'',
       spawn_args = [''/ext/src/python/pdf_processor.py'', ''/docs/p.pdf'', ''-o'', ''/notes'',
          ''-k'', ''sk-1'', ''-t'', ''~/Downolads/template.md''],
       spawn_cwd = Some ''/ext''\<rparr>]"
    unfolding conjunct1 [OF conjunct2 [OF t]] ext script
    by (simp add: out initial_state_def)
  have b: "processFolder_outputPath ?st ''/docs/p.pdf'' = ''/notes''"
    unfolding conjunct1 [OF conjunct2 [OF conjunct2 [OF t]]] by simp
  have c: "spawned (snd (processFile ?env (Some ''/docs/p.pdf'') None [Close (Some 0)] initial_state)) =
     [\<lparr>spawn_command = ''python'',
       spawn_args = [''/ext/src/python/pdf_processor.py'', ''/docs/p.pdf'', ''-o'',
          ''/home/u/Downolads/PDF_Output'', ''-t'', ''~/Downolads/template.md''],
       spawn_cwd = Some ''/ext''\<rparr>]"
    unfolding conjunct1 [OF conjunct2 [OF t0]] ext script
    by (simp add: out0 initial_state_def)
  show ?thesis
    by (intro conjI) (rule a, rule b, rule c)
qed

section \<open>Activation and the single-file command\<close>

lemma activate_commands:
  "commands (activate env st) =
     commands st @
     [(''pdfProcessor.processFile'', ProcessFile),
      (''pdfProcessor.processFolder'', ProcessFolder),
      (''pdfProcessor.selectTemplatePath'', SelectTemplate),
      (''pdfProcessor.selectOutputPath'', SelectOutput),
      (''pdfProcessor.selectBibtexPath'', SelectBibtex)]"
  by (simp add: activate_def Let_def registerCommand_def installPythonDeps_def spawn_def)

text \<open>After activation each registered name runs its handler.\<close>

lemma executeCommand_after_activate:
  "executeCommand env ''pdfProcessor.processFile'' uri dialog events (activate env initial_state) =
     Some (processFile env uri dialog events (activate env initial_state))"
  "executeCommand env ''pdfProcessor.processFolder'' uri dialog events (activate env initial_state) =
     Some (processFolder env uri dialog (activate env initial_state))"
  "executeCommand env ''pdfProcessor.selectTemplatePath'' uri dialog events (activate env initial_state) =
     Some (selectTemplate dialog (activate env initial_state))"
  "executeCommand env ''pdfProcessor.selectOutputPath'' uri dialog events (activate env initial_state) =
     Some (selectOutput dialog (activate env initial_state))"
  "executeCommand env ''pdfProcessor.selectBibtexPath'' uri dialog events (activate env initial_state) =
     Some (selectBibtex dialog (activate env initial_state))"
  by (simp_all add: executeCommand_def activate_commands initial_state_def)

text \<open>
  Claim C6, as amended: activation registers the five commands (single file, folder, and
  the selection of the template, output and bibliography paths); an invocation of the
  single-file command that has a target, passed in or chosen in the dialog, reads the
  settings, resolves the output path and spawns exactly one process, the interpreter.
\<close>

theorem activation_and_single_file_command:
  assumes "choose_target uri dialog = Some fsPath"
  shows "commands (activate env st) =
       commands st @
       [(''pdfProcessor.processFile'', ProcessFile),
        (''pdfProcessor.processFolder'', ProcessFolder),
        (''pdfProcessor.selectTemplatePath'', SelectTemplate),
        (''pdfProcessor.selectOutputPath'', SelectOutput),
        (''pdfProcessor.selectBibtexPath'', SelectBibtex)]
     \<and> spawned (snd (processFile env uri dialog events st)) =
       spawned st @
       [\<lparr>spawn_command = or_else (config_get st ''pythonPath'') ''python'',
         spawn_args =
           build_args
             (path_join env [extensionPath env, ''src'', ''python'', ''pdf_processor.py''])
             fsPath
             (resolve_outputPath env
                (or_else (config_get st ''outputPath'') (path_dirname env fsPath)))
             (config_get st ''openaiApiKey'') (config_get st ''templatePath''),
         spawn_cwd = Some (extensionPath env)\<rparr>]"
  by (simp add: activate_commands processFile_def assms await_or_catch_spawned
      processPDF_spawned processFile_outputPath_def)

theorem activation_and_single_file_command_witness:
  "choose_target None (Some [''/docs/p.pdf'']) = Some ''/docs/p.pdf''
   \<and> map fst (commands (activate (posix_env ''/ext'' ''/home/u'' ''/work'') initial_state)) =
       [''pdfProcessor.processFile'', ''pdfProcessor.processFolder'',
        ''pdfProcessor.selectTemplatePath'', ''pdfProcessor.selectOutputPath'',
        ''pdfProcessor.selectBibtexPath'']
   \<and> spawned (snd (processFile (posix_env ''/ext'' ''/home/u'' ''/work'') None
        (Some [''/docs/p.pdf'']) [Close (Some 0)] initial_state)) =
       [\<lparr>spawn_command = ''python'',
         spawn_args = [''/ext/src/python/pdf_processor.py'', ''/docs/p.pdf'', ''-o'',
            ''/home/u/Downolads/PDF_Output'', ''-t'', ''~/Downolads/template.md''],
         spawn_cwd = Some ''/ext''\<rparr>]"
proof -
  have h: "choose_target None (Some [''/docs/p.pdf'']) = Some ''/docs/p.pdf''"
    by (simp add: choose_target_def)
  note t = activation_and_single_file_command [OF h,
      of "posix_env ''/ext'' ''/home/u'' ''/work''" initial_state "[Close (Some 0)]"]
  have c: "map fst (commands (activate (posix_env ''/ext'' ''/home/u'' ''/work'') initial_state)) =
       [''pdfProcessor.processFile'', ''pdfProcessor.processFolder'',
        ''pdfProcessor.selectTemplatePath'', ''pdfProcessor.selectOutputPath'',
        ''pdfProcessor.selectBibtexPath'']"
    unfolding conjunct1 [OF t] by (simp add: initial_state_def)
  have cfg: "config_get initial_state ''pythonPath'' = Some ''python''"
    "config_get initial_state ''outputPath'' = Some ''~/Downolads/PDF_Output''"
    "config_get initial_state ''openaiApiKey'' = Some []"
    "config_get initial_state ''templatePath'' = Some ''~/Downolads/template.md''"
    by (simp_all add: config_get_def initial_state_def configuration_properties_def)
  have out: "resolve_outputPath (posix_env ''/ext'' ''/home/u'' ''/work'') ''~/Downolads/PDF_Output''
      = ''/home/u/Downolads/PDF_Output''"
    by (simp add: resolve_outputPath_def posix_env_def startsWith_def replace_def
        posix_resolve_def isAbsolute_def normalizeString_def)
  have ext: "extensionPath (posix_env ''/ext'' ''/home/u'' ''/work'') = ''/ext''"
    by (simp add: posix_env_def)
  have script: "path_join (posix_env ''/ext'' ''/home/u'' ''/work'')
      [extensionPath (posix_env ''/ext'' ''/home/u'' ''/work''), ''src'', ''python'', ''pdf_processor.py'']
      = ''/ext/src/python/pdf_processor.py''"
    by (simp add: posix_env_def posix_join_def posix_normalize_def isAbsolute_def
        startsWith_def normalizeString_def)
  have s: "spawned (snd (processFile (posix_env ''/ext'' ''/home/u'' ''/work'') None
        (Some [''/docs/p.pdf'']) [Close (Some 0)] initial_state)) =
       [\<lparr>spawn_command = ''python'',
         spawn_args = [''/ext/src/python/pdf_processor.py'', ''/docs/p.pdf'', ''-o'',
            ''/home/u/Downolads/PDF_Output'', ''-t'', ''~/Downolads/template.md''],
         spawn_cwd = Some ''/ext''\<rparr>]"
    unfolding conjunct2 [OF t] cfg script
    by (simp add: or_else_def out build_args_def push_option_def initial_state_def ext)
  show ?thesis
    by (intro conjI) (rule h, rule c, rule s)
qed

text \<open>
  Claim C6 as stated fails for an invocation without a target whose dialog is dismissed:
  the single-file command then spawns no process.
\<close>

theorem single_file_command_dismissed_counterexample:
  "spawned (snd (processFile (posix_env ''/ext'' ''/home/u'' ''/work'') None None
      [Close (Some 0)] initial_state)) = []"
  by (simp add: processFile_def choose_target_def initial_state_def)

section \<open>The fallback of the Citation Resolver\<close>

lemma resolve_never_fails: "\<exists>t r. resolve c apiKey document cand = Inr (t, r)"
  by (simp add: resolve_def split: option.split)

text \<open>
  Claim C7: when none of the three strategies yields a record (the registry has no match
  for the DOI or is out of reach, no title match is accepted, no API key is configured or
  the language model gives nothing), \<^const>\<open>resolve\<close> still succeeds, with the record built
  from the file name and the file's metadata, at tier \<^const>\<open>Unresolved\<close>.
\<close>

theorem resolve_falls_back_to_file_record:
  assumes "doi_strategy c cand = None"
    and "title_strategy c cand = None"
    and "model_strategy c apiKey document = None"
  shows "resolve c apiKey document cand =
     Inr (Unresolved, record_from_file c (file_path document) (properties document))"
  by (simp add: resolve_def assms)

theorem resolve_falls_back_to_file_record_witness:
  "doi_strategy
      \<lparr>registry_doi = (\<lambda>d. NotFound), registry_title = (\<lambda>t. Unavailable),
        similarity_threshold = 80, language_model = (\<lambda>k s. Unavailable),
        record_from_file = (\<lambda>f m. sample_record f)\<rparr>
      \<lparr>doi = Some ''10.1000/xyz123'', guessed_title = Some ''Example Paper''\<rparr> = None
   \<and> title_strategy
      \<lparr>registry_doi = (\<lambda>d. NotFound), registry_title = (\<lambda>t. Unavailable),
        similarity_threshold = 80, language_model = (\<lambda>k s. Unavailable),
        record_from_file = (\<lambda>f m. sample_record f)\<rparr>
      \<lparr>doi = Some ''10.1000/xyz123'', guessed_title = Some ''Example Paper''\<rparr> = None
   \<and> model_strategy
      \<lparr>registry_doi = (\<lambda>d. NotFound), registry_title = (\<lambda>t. Unavailable),
        similarity_threshold = 80, language_model = (\<lambda>k s. Unavailable),
        record_from_file = (\<lambda>f m. sample_record f)\<rparr>
      None \<lparr>file_path = ''/docs/p.pdf'', text_snippet = ''Example'', properties = []\<rparr> = None
   \<and> resolve
      \<lparr>registry_doi = (\<lambda>d. NotFound), registry_title = (\<lambda>t. Unavailable),
        similarity_threshold = 80, language_model = (\<lambda>k s. Unavailable),
        record_from_file = (\<lambda>f m. sample_record f)\<rparr>
      None \<lparr>file_path = ''/docs/p.pdf'', text_snippet = ''Example'', properties = []\<rparr>
      \<lparr>doi = Some ''10.1000/xyz123'', guessed_title = Some ''Example Paper''\<rparr>
     = Inr (Unresolved, sample_record ''/docs/p.pdf'')"
proof -
  let ?c = "\<lparr>registry_doi = (\<lambda>d. NotFound), registry_title = (\<lambda>t. Unavailable),
        similarity_threshold = 80, language_model = (\<lambda>k s. Unavailable),
        record_from_file = (\<lambda>f m. sample_record f)\<rparr>"
  let ?cand = "\<lparr>doi = Some ''10.1000/xyz123'', guessed_title = Some ''Example Paper''\<rparr>"
  let ?d = "\<lparr>file_path = ''/docs/p.pdf'', text_snippet = ''Example'', properties = []\<rparr>"
  have h1: "doi_strategy ?c ?cand = None" by (simp add: doi_strategy_def)
  have h2: "title_strategy ?c ?cand = None" by (simp add: title_strategy_def)
  have h3: "model_strategy ?c None ?d = None" by (simp add: model_strategy_def)
  have r: "resolve ?c None ?d ?cand = Inr (Unresolved, sample_record ''/docs/p.pdf'')"
    using resolve_falls_back_to_file_record [OF h1 h2 h3] by simp
  show ?thesis
    by (intro conjI) (rule h1, rule h2, rule h3, rule r)
qed

section \<open>The output path\<close>



text \<open>
  With nothing set by the user the contributed default is the output path of both
  commands; the case of the claim arises when the setting holds the empty string.
\<close>

lemma default_outputPath:
  "settings st ''pdfProcessor.outputPath'' = None \<Longrightarrow>
   processFile_outputPath env st fsPath = ''~/Downolads/PDF_Output''
   \<and> processFolder_outputPath st fsPath = ''~/Downolads/PDF_Output''"
  by (simp add: processFile_outputPath_def processFolder_outputPath_def config_get_def
      configuration_properties_def or_else_def)

section \<open>The tilde in the output path\<close>

text \<open>
  Where the tilde expansion does what it is meant to do: a home directory without a dollar
  sign replaces the leading tilde, and a path without a leading tilde is only resolved.
\<close>

lemma resolve_outputPath_tilde:
  "startsWith outputPath ''~'' \<Longrightarrow> CHR ''$'' \<notin> set (homedir env) \<Longrightarrow>
   resolve_outputPath env outputPath = path_resolve env (homedir env @ tl outputPath)"
  by (simp add: resolve_outputPath_def replace_prefix_literal drop_Suc)

lemma resolve_outputPath_plain:
  "\<not> startsWith outputPath ''~'' \<Longrightarrow>
   resolve_outputPath env outputPath = path_resolve env outputPath"
  by (simp add: resolve_outputPath_def)

text \<open>
  Claim C9 has the leading tilde replaced by the home directory. The replacement text of
  \<^const>\<open>replace\<close> is read as a pattern, so a home directory that contains \<^verbatim>\<open>$$\<close> is
  not inserted as it is: with the home directory \<^verbatim>\<open>/home/a$$b\<close> the interpreter is
  given \<^verbatim>\<open>/home/a$b/notes\<close>, where the home directory followed by the rest of the
  path resolves to \<^verbatim>\<open>/home/a$$b/notes\<close>.
\<close>

theorem tilde_expansion_rewrites_home:
  "map spawn_args (spawned (snd (processPDF (posix_env ''/ext'' ''/home/a$$b'' ''/work'')
      ''/docs/p.pdf'' ''~/notes'' [] initial_state))) =
     [[''/ext/src/python/pdf_processor.py'', ''/docs/p.pdf'', ''-o'', ''/home/a$b/notes'',
       ''-t'', ''~/Downolads/template.md'']]
   \<and> posix_resolve ''/work'' (''/home/a$$b'' @ tl ''~/notes'') = ''/home/a$$b/notes''"
proof -
  let ?env = "posix_env ''/ext'' ''/home/a$$b'' ''/work''"
  have cfg: "config_get initial_state ''openaiApiKey'' = Some []"
    "config_get initial_state ''templatePath'' = Some ''~/Downolads/template.md''"
    by (simp_all add: config_get_def initial_state_def configuration_properties_def)
  have out: "resolve_outputPath ?env ''~/notes'' = ''/home/a$b/notes''"
    by (simp add: resolve_outputPath_def posix_env_def startsWith_def replace_def
        posix_resolve_def isAbsolute_def normalizeString_def)
  have script: "path_join ?env [extensionPath ?env, ''src'', ''python'', ''pdf_processor.py'']
      = ''/ext/src/python/pdf_processor.py''"
    by (simp add: posix_env_def posix_join_def posix_normalize_def isAbsolute_def
        startsWith_def normalizeString_def)
  have a: "map spawn_args (spawned (snd (processPDF ?env ''/docs/p.pdf'' ''~/notes'' [] initial_state))) =
     [[''/ext/src/python/pdf_processor.py'', ''/docs/p.pdf'', ''-o'', ''/home/a$b/notes'',
       ''-t'', ''~/Downolads/template.md'']]"
    unfolding processPDF_spawned cfg script out
    by (simp add: build_args_def push_option_def initial_state_def)
  have b: "posix_resolve ''/work'' (''/home/a$$b'' @ tl ''~/notes'') = ''/home/a$$b/notes''"
    by (simp add: posix_resolve_def isAbsolute_def startsWith_def normalizeString_def)
  show ?thesis by (intro conjI) (rule a, rule b)
qed

end
